theory Spec2Isabelle
  imports Main
begin

section \<open>The reservation section of the landing page\<close>

text \<open>
  A shallow embedding of \<^verbatim>\<open>src/components/sections/ReserveSection.tsx\<close>.
  The component keeps five pieces of React state and two event handlers,
  \<^verbatim>\<open>handleReserve\<close> and \<^verbatim>\<open>toggleExpanded\<close>, next to the effect that
  loads the whitelist on mount.  A handler is a function from the state of the
  render it was created in to the state after it has run, together with the
  trace of what it did, in program order.  The wallet SDK, the chain-switch
  helper and the remote store are outside the component: what their calls
  return or throw is given by an environment.  \<^verbatim>\<open>handleReserve\<close> below
  is one call in isolation; the runs of the component, further down, let
  calls overlap one another and the fetch of the mount effect.
\<close>

subsection \<open>Data\<close>

text \<open>\<^verbatim>\<open>{ address: string; count: number }\<close>; the counts are integers.\<close>

record entry =
  address :: string
  count :: int

text \<open>\<^verbatim>\<open>ReserveSectionProps\<close>; \<^verbatim>\<open>walletAddress\<close> is \<^verbatim>\<open>string | null\<close>.\<close>

record props =
  ident :: string
  walletAddress :: "string option"
  recipientAddress :: string
  userQualifies :: bool

text \<open>The five \<^verbatim>\<open>useState\<close> cells.\<close>

record state =
  selectedCount :: int
  whitelist :: "entry list"
  totalReserved :: int
  loading :: bool
  expanded :: bool

definition init_state :: state where
  "init_state =
     \<lparr>selectedCount = 1, whitelist = [], totalReserved = 0,
      loading = False, expanded = False\<rparr>"

text \<open>
  A thrown value, as the \<^verbatim>\<open>catch\<close> block reads it: the fields
  \<^verbatim>\<open>code\<close>, \<^verbatim>\<open>reason\<close> and \<^verbatim>\<open>message\<close>, each of which may be absent.
\<close>

record js_error =
  code :: "string option"
  reason :: "string option"
  message :: "string option"

text \<open>
  The outcome of every call that leaves the component: \<open>Inl\<close> is a throw
  (for an awaited call, a rejected promise), \<open>Inr\<close> the value returned.  The
  first field is \<^verbatim>\<open>new ethers.BrowserProvider(window.ethereum)\<close>,
  \<^verbatim>\<open>getNetwork\<close> gives the chain id, \<^verbatim>\<open>txWait\<close> is \<^verbatim>\<open>tx.wait()\<close>.
\<close>

record env =
  newBrowserProvider :: "js_error + unit"
  getSigner :: "js_error + unit"
  getNetwork :: "js_error + int"
  switchToApeChain :: "js_error + unit"
  sendTransaction :: "string \<Rightarrow> int \<Rightarrow> js_error + unit"
  txWait :: "js_error + unit"
  updateWhitelist :: "string \<Rightarrow> int \<Rightarrow> js_error + unit"

text \<open>What a handler does, in program order.\<close>

datatype event =
    Alert string
  | ConsoleError js_error
  | SetLoading bool
  | NewBrowserProvider
  | GetSigner
  | GetNetwork
  | SwitchToApeChain
  | SendTransaction string int
  | TxWait
  | SetWhitelist "entry list"
  | SetTotalReserved int
  | UpdateWhitelist string int

subsection \<open>JavaScript primitives the component uses\<close>

text \<open>Truthiness of a value that is a string, \<^verbatim>\<open>null\<close> or \<^verbatim>\<open>undefined\<close>.\<close>

definition truthy :: "string option \<Rightarrow> bool" where
  "truthy v = (case v of None \<Rightarrow> False | Some s \<Rightarrow> s \<noteq> [])"

text \<open>\<^verbatim>\<open>a || b\<close> where \<open>b\<close> is a string.\<close>

definition or_else :: "string option \<Rightarrow> string \<Rightarrow> string" where
  "or_else v d = (case v of None \<Rightarrow> d | Some s \<Rightarrow> if s = [] then d else s)"

text \<open>
  \<^verbatim>\<open>Array.prototype.slice(start)\<close>: a negative start counts from the end
  and is clamped at the first element, a positive one is clamped at the length.
\<close>

definition slice_from :: "int \<Rightarrow> 'a list \<Rightarrow> 'a list" where
  "slice_from start xs =
     (let n = int (length xs);
          k = (if start < 0 then max (n + start) 0 else min start n)
      in drop (nat k) xs)"

text \<open>
  \<^verbatim>\<open>Number.prototype.toString()\<close> on an integer (below \<open>10\<^sup>2\<^sup>1\<close> in
  absolute value, where JavaScript prints all digits): the decimal digits,
  after a minus sign for a negative number.
\<close>

definition digit_chars :: string where
  "digit_chars = ''0123456789''"

definition digit_char :: "nat \<Rightarrow> char" where
  "digit_char d = digit_chars ! (d mod 10)"

fun digits_of :: "nat \<Rightarrow> string" where
  "digits_of n =
     (if n < 10 then [digit_char n]
      else digits_of (n div 10) @ [digit_char (n mod 10)])"

declare digits_of.simps [simp del]

definition toString :: "int \<Rightarrow> string" where
  "toString n =
     (if n < 0 then CHR ''-'' # digits_of (nat (- n)) else digits_of (nat n))"

text \<open>
  \<^verbatim>\<open>ethers.parseEther\<close> belongs to the wallet SDK.  It reads a decimal
  string as an amount of the unit currency and returns it in the smallest
  unit, \<open>10\<^sup>1\<^sup>8\<close> to one.  The component only passes it the output of
  \<open>toString\<close> on an integer, so the model reads an optionally signed run of
  digits and throws on every other string.
\<close>

fun position :: "'a \<Rightarrow> 'a list \<Rightarrow> nat option" where
  "position c [] = None"
| "position c (x # xs) =
     (if c = x then Some 0 else map_option (\<lambda>i. i + 1) (position c xs))"

definition digit_value :: "char \<Rightarrow> nat option" where
  "digit_value c = position c digit_chars"

fun parse_digits :: "nat \<Rightarrow> string \<Rightarrow> nat option" where
  "parse_digits acc [] = Some acc"
| "parse_digits acc (c # cs) =
     (case digit_value c of
        None \<Rightarrow> None
      | Some d \<Rightarrow> parse_digits (acc * 10 + d) cs)"

definition parse_decimal :: "string \<Rightarrow> int option" where
  "parse_decimal s =
     (case s of
        [] \<Rightarrow> None
      | c # cs \<Rightarrow>
          if c = CHR ''-''
          then (if cs = [] then None
                else map_option (\<lambda>n. - int n) (parse_digits 0 cs))
          else map_option int (parse_digits 0 s))"

definition invalid_argument :: js_error where
  "invalid_argument =
     \<lparr>code = Some ''INVALID_ARGUMENT'', reason = None,
      message = Some ''invalid FixedNumber string value''\<rparr>"

definition wei_per_ether :: int where
  "wei_per_ether = 10 ^ 18"

definition parseEther :: "string \<Rightarrow> js_error + int" where
  "parseEther s =
     (case parse_decimal s of
        None \<Rightarrow> Inl invalid_argument
      | Some n \<Rightarrow> Inr (n * wei_per_ether))"

subsection \<open>Loading the whitelist on mount\<close>

text \<open>
  \<^verbatim>\<open>fetchedWhitelist.reduce((total, entry) => total + entry.count, 0)\<close>
\<close>

definition count_total :: "entry list \<Rightarrow> int" where
  "count_total es = foldl (\<lambda>total e. total + count e) 0 es"

text \<open>
  \<^verbatim>\<open>loadWhitelist\<close>: on a fetched list both cells are set, on a failed
  fetch the error is logged and the state stays as it was.
\<close>

definition loadWhitelist :: "(js_error + entry list) \<Rightarrow> state \<Rightarrow> state \<times> event list" where
  "loadWhitelist fetched s =
     (case fetched of
        Inl e \<Rightarrow> (s, [ConsoleError e])
      | Inr fetchedWhitelist \<Rightarrow>
          (s\<lparr>whitelist := fetchedWhitelist,
             totalReserved := count_total fetchedWhitelist\<rparr>,
           [SetWhitelist fetchedWhitelist,
            SetTotalReserved (count_total fetchedWhitelist)]))"

subsection \<open>The reservation handler\<close>

definition connect_wallet_msg :: string where
  "connect_wallet_msg = ''Please connect your wallet to proceed.''"

definition limit_reached_msg :: string where
  "limit_reached_msg = ''Reservation limit reached. Please select fewer spots.''"

definition success_msg :: string where
  "success_msg = ''Reservation successful!''"

definition insufficient_funds_msg :: string where
  "insufficient_funds_msg =
     ''You do not have enough ETH to complete this reservation. Please check your balance and try again.''"

definition call_exception_msg :: string where
  "call_exception_msg = ''Transaction failed. Please ensure you have enough funds.''"

definition unexpected_error_msg :: string where
  "unexpected_error_msg = ''An unexpected error occurred. Please try again.''"

text \<open>The required chain, \<^verbatim>\<open>BigInt(33139)\<close>, and the campaign cap.\<close>

definition ape_chain_id :: int where
  "ape_chain_id = 33139"

definition cap :: int where
  "cap = 333"

text \<open>The message the \<^verbatim>\<open>catch\<close> block alerts for a thrown value.\<close>

definition error_alert :: "js_error \<Rightarrow> string" where
  "error_alert e =
     (if code e = Some ''INSUFFICIENT_FUNDS'' then insufficient_funds_msg
      else if code e = Some ''CALL_EXCEPTION'' then call_exception_msg
      else or_else (reason e) (or_else (message e) unexpected_error_msg))"

text \<open>
  \<^verbatim>\<open>whitelist.map(...)\<close> followed by the conditional \<^verbatim>\<open>push\<close>:
  every entry of the wallet gets the selected count added, and an entry is
  appended when the wallet has none.
\<close>

definition bump_entry :: "string \<Rightarrow> int \<Rightarrow> entry \<Rightarrow> entry" where
  "bump_entry wallet q e =
     (if address e = wallet then e\<lparr>count := count e + q\<rparr> else e)"

definition updatedWhitelist :: "string \<Rightarrow> int \<Rightarrow> entry list \<Rightarrow> entry list" where
  "updatedWhitelist wallet q wl =
     (let mapped = map (bump_entry wallet q) wl
      in if \<not> list_ex (\<lambda>e. address e = wallet) wl
         then mapped @ [\<lparr>address = wallet, count = q\<rparr>]
         else mapped)"

text \<open>
  The three parts of the \<^verbatim>\<open>try\<close> block return the value thrown, if
  any, the state and the trace.  First what follows \<^verbatim>\<open>await tx.wait()\<close>:
  the two state updates, the write to the remote store, the success alert.
\<close>

definition reserve_commit :: "env \<Rightarrow> string \<Rightarrow> state \<Rightarrow> js_error option \<times> state \<times> event list" where
  "reserve_commit en wallet s =
     (let wl = updatedWhitelist wallet (selectedCount s) (whitelist s);
          total = totalReserved s + selectedCount s;
          s' = s\<lparr>whitelist := wl, totalReserved := total\<rparr>;
          tr = [SetWhitelist wl, SetTotalReserved total,
                UpdateWhitelist wallet (selectedCount s)]
      in case updateWhitelist en wallet (selectedCount s) of
           Inl e \<Rightarrow> (Some e, s', tr)
         | Inr _ \<Rightarrow> (None, s', tr @ [Alert success_msg]))"

text \<open>The payment: the amount, the transfer and the wait for its confirmation.\<close>

definition reserve_pay :: "props \<Rightarrow> env \<Rightarrow> string \<Rightarrow> state \<Rightarrow> js_error option \<times> state \<times> event list" where
  "reserve_pay p en wallet s =
     (case parseEther (toString (selectedCount s * 2)) of
        Inl e \<Rightarrow> (Some e, s, [])
      | Inr amount \<Rightarrow>
          (case sendTransaction en (recipientAddress p) amount of
             Inl e \<Rightarrow> (Some e, s, [SendTransaction (recipientAddress p) amount])
           | Inr _ \<Rightarrow>
               (case txWait en of
                  Inl e \<Rightarrow>
                    (Some e, s, [SendTransaction (recipientAddress p) amount, TxWait])
                | Inr _ \<Rightarrow>
                    (case reserve_commit en wallet s of
                       (thrown, s', tr) \<Rightarrow>
                         (thrown, s',
                          [SendTransaction (recipientAddress p) amount, TxWait] @ tr)))))"

text \<open>
  The whole \<^verbatim>\<open>try\<close> block: provider, signer, network, chain check, cap
  check, payment.  On the wrong chain the switch helper is called and the
  attempt ends.
\<close>

definition reserve_try :: "props \<Rightarrow> env \<Rightarrow> string \<Rightarrow> state \<Rightarrow> js_error option \<times> state \<times> event list" where
  "reserve_try p en wallet s =
     (case newBrowserProvider en of
        Inl e \<Rightarrow> (Some e, s, [NewBrowserProvider])
      | Inr _ \<Rightarrow>
     (case getSigner en of
        Inl e \<Rightarrow> (Some e, s, [NewBrowserProvider, GetSigner])
      | Inr _ \<Rightarrow>
          (case getNetwork en of
             Inl e \<Rightarrow> (Some e, s, [NewBrowserProvider, GetSigner, GetNetwork])
           | Inr chainId \<Rightarrow>
               if chainId \<noteq> ape_chain_id then
                 (case switchToApeChain en of
                    Inl e \<Rightarrow>
                      (Some e, s, [NewBrowserProvider, GetSigner, GetNetwork, SwitchToApeChain])
                  | Inr _ \<Rightarrow>
                      (None, s, [NewBrowserProvider, GetSigner, GetNetwork, SwitchToApeChain]))
               else if totalReserved s + selectedCount s > cap then
                 (None, s, [NewBrowserProvider, GetSigner, GetNetwork, Alert limit_reached_msg])
               else
                 (case reserve_pay p en wallet s of
                    (thrown, s', tr) \<Rightarrow>
                      (thrown, s', [NewBrowserProvider, GetSigner, GetNetwork] @ tr)))))"

text \<open>The \<^verbatim>\<open>catch\<close> block.\<close>

definition reserve_catch :: "js_error option \<Rightarrow> event list" where
  "reserve_catch thrown =
     (case thrown of
        None \<Rightarrow> []
      | Some e \<Rightarrow> [ConsoleError e, Alert (error_alert e)])"

text \<open>
  \<^verbatim>\<open>handleReserve\<close>: the wallet check comes before \<^verbatim>\<open>setLoading(true)\<close>
  and before the \<^verbatim>\<open>try\<close>; \<^verbatim>\<open>finally\<close> runs on every way out of the
  \<^verbatim>\<open>try\<close>.
\<close>

definition handleReserve :: "props \<Rightarrow> env \<Rightarrow> state \<Rightarrow> state \<times> event list" where
  "handleReserve p en s =
     (case walletAddress p of
        None \<Rightarrow> (s, [Alert connect_wallet_msg])
      | Some wallet \<Rightarrow>
          if wallet = [] then (s, [Alert connect_wallet_msg])
          else
            (case reserve_try p en wallet (s\<lparr>loading := True\<rparr>) of
               (thrown, s', tr) \<Rightarrow>
                 (s'\<lparr>loading := False\<rparr>,
                  [SetLoading True] @ tr @ reserve_catch thrown @ [SetLoading False])))"

text \<open>The value the \<^verbatim>\<open>try\<close> block of a run throws, if any.\<close>

definition thrown :: "props \<Rightarrow> env \<Rightarrow> string \<Rightarrow> state \<Rightarrow> js_error option" where
  "thrown p en wallet s = fst (reserve_try p en wallet (s\<lparr>loading := True\<rparr>))"

subsection \<open>The display\<close>

definition toggleExpanded :: "state \<Rightarrow> state" where
  "toggleExpanded s = s\<lparr>expanded := \<not> expanded s\<rparr>"

definition setSelectedCount :: "int \<Rightarrow> state \<Rightarrow> state" where
  "setSelectedCount v s = s\<lparr>selectedCount := v\<rparr>"

definition displayedReservations :: "state \<Rightarrow> entry list" where
  "displayedReservations s =
     (if expanded s then whitelist s else slice_from (- 10) (whitelist s))"

text \<open>\<^verbatim>\<open>{333 - totalReserved}\<close>\<close>

definition total_available :: "state \<Rightarrow> int" where
  "total_available s = 333 - totalReserved s"

text \<open>The items of the reservation list and the label of the toggle, when it is rendered.\<close>

definition reservation_line :: "entry \<Rightarrow> string" where
  "reservation_line e = address e @ '' reserved '' @ toString (count e) @ '' spots''"

definition reservation_items :: "state \<Rightarrow> string list" where
  "reservation_items s =
     (if length (displayedReservations s) > 0
      then map reservation_line (displayedReservations s)
      else [''No reservations yet.''])"

definition toggle_button :: "state \<Rightarrow> string option" where
  "toggle_button s =
     (if length (whitelist s) > 10
      then Some (if expanded s then ''Show Less'' else ''Show All'')
      else None)"

subsection \<open>Reading a trace\<close>

text \<open>
  The messages shown to the user, the writes to the remote store, the updates
  of the reservation state (the whitelist and its tally).
\<close>

fun alerts :: "event list \<Rightarrow> string list" where
  "alerts [] = []"
| "alerts (Alert m # evs) = m # alerts evs"
| "alerts (_ # evs) = alerts evs"

fun remote_writes :: "event list \<Rightarrow> (string \<times> int) list" where
  "remote_writes [] = []"
| "remote_writes (UpdateWhitelist a c # evs) = (a, c) # remote_writes evs"
| "remote_writes (_ # evs) = remote_writes evs"

fun is_reservation_update :: "event \<Rightarrow> bool" where
  "is_reservation_update (SetWhitelist _) = True"
| "is_reservation_update (SetTotalReserved _) = True"
| "is_reservation_update _ = False"

subsection \<open>The run in which the payment is confirmed\<close>

text \<open>
  The provider is constructed, the signer and the network are obtained and
  the network is the required chain; then, for a connected wallet and a
  selected count the cap leaves room for, both \<^verbatim>\<open>sendTransaction\<close> and
  \<^verbatim>\<open>tx.wait()\<close> resolve.
\<close>

definition on_required_chain :: "env \<Rightarrow> bool" where
  "on_required_chain en \<longleftrightarrow>
     newBrowserProvider en = Inr () \<and> getSigner en = Inr () \<and>
     getNetwork en = Inr ape_chain_id"

definition payment_confirmed :: "props \<Rightarrow> env \<Rightarrow> state \<Rightarrow> string \<Rightarrow> bool" where
  "payment_confirmed p en s wallet \<longleftrightarrow>
     walletAddress p = Some wallet \<and> wallet \<noteq> [] \<and>
     on_required_chain en \<and>
     totalReserved s + selectedCount s \<le> cap \<and>
     sendTransaction en (recipientAddress p) (selectedCount s * 2 * wei_per_ether) = Inr () \<and>
     txWait en = Inr ()"

subsection \<open>Runs of the component\<close>

text \<open>
  \<^verbatim>\<open>handleReserve\<close> is an async function.  It reads \<^verbatim>\<open>whitelist\<close>,
  \<^verbatim>\<open>totalReserved\<close> and \<^verbatim>\<open>selectedCount\<close> from the render it was
  created in (its closure), and nothing keeps a second call, or the fetch of
  the mount effect, from settling while it waits.  Its writes land on the
  state of the moment: \<^verbatim>\<open>setWhitelist(updatedWhitelist)\<close> replaces the list
  by one computed from the closure, \<^verbatim>\<open>setTotalReserved(prev => prev + selectedCount)\<close>
  adds to the total of the moment.  A call in flight is its props, the
  outcome of its external calls, its closure, and whether it has passed the
  two updates that follow \<^verbatim>\<open>await tx.wait()\<close>.
\<close>

record call =
  call_props :: props
  call_env :: env
  call_closure :: state
  call_committed :: bool

record component =
  live :: state
  in_flight :: "call list"

definition mounted :: component where
  "mounted = \<lparr>live = init_state, in_flight = []\<rparr>"

text \<open>
  What happens to a mounted component, one at a time: the fetch of the mount
  effect settles; the pay button is clicked; a call in flight runs on from
  where it waits; the selector changes; the toggle is clicked.
\<close>

datatype action =
    Fetched "js_error + entry list"
  | Click props env
  | Resume nat
  | Select int
  | Toggle

text \<open>
  The click: without a wallet the call alerts and is over; with one it sets
  \<^verbatim>\<open>loading\<close> and waits at its first \<^verbatim>\<open>await\<close>, holding the state of
  the render that was clicked.
\<close>

definition click :: "props \<Rightarrow> env \<Rightarrow> component \<Rightarrow> component" where
  "click p en c =
     (if truthy (walletAddress p)
      then c\<lparr>live := (live c)\<lparr>loading := True\<rparr>,
             in_flight := in_flight c @
               [\<lparr>call_props = p, call_env = en, call_closure = live c,
                 call_committed = False\<rparr>]\<rparr>
      else c)"

text \<open>Whether a call gets past \<^verbatim>\<open>await tx.wait()\<close>: decided by its closure.\<close>

definition passes_wait :: "call \<Rightarrow> bool" where
  "passes_wait cl =
     (case walletAddress (call_props cl) of
        None \<Rightarrow> False
      | Some wallet \<Rightarrow>
          payment_confirmed (call_props cl) (call_env cl) (call_closure cl) wallet)"

text \<open>
  The two updates after \<^verbatim>\<open>await tx.wait()\<close>, on the state of the moment:
  the list comes from the closure, the total is added to.
\<close>

definition local_update :: "call \<Rightarrow> state \<Rightarrow> state" where
  "local_update cl s =
     (case walletAddress (call_props cl) of
        None \<Rightarrow> s
      | Some wallet \<Rightarrow>
          s\<lparr>whitelist :=
              updatedWhitelist wallet (selectedCount (call_closure cl))
                (whitelist (call_closure cl)),
            totalReserved := totalReserved s + selectedCount (call_closure cl)\<rparr>)"

text \<open>
  A call in flight runs on.  From its first wait it either reaches the two
  updates and then waits for \<^verbatim>\<open>updateWhitelist\<close>, or it ends (a throw, the
  chain switch, the cap) through \<^verbatim>\<open>finally\<close>; from the wait for
  \<^verbatim>\<open>updateWhitelist\<close> it ends through \<^verbatim>\<open>finally\<close>.
\<close>

definition resume :: "nat \<Rightarrow> component \<Rightarrow> component" where
  "resume i c =
     (if i < length (in_flight c) then
        (let cl = in_flight c ! i in
         if \<not> call_committed cl \<and> passes_wait cl
         then c\<lparr>live := local_update cl (live c),
                in_flight := (in_flight c)[i := cl\<lparr>call_committed := True\<rparr>]\<rparr>
         else c\<lparr>live := (live c)\<lparr>loading := False\<rparr>,
                in_flight := take i (in_flight c) @ drop (Suc i) (in_flight c)\<rparr>)
      else c)"

fun step :: "component \<Rightarrow> action \<Rightarrow> component" where
  "step c (Fetched fetched) = c\<lparr>live := fst (loadWhitelist fetched (live c))\<rparr>"
| "step c (Click p en) = click p en c"
| "step c (Resume i) = resume i c"
| "step c (Select v) = c\<lparr>live := setSelectedCount v (live c)\<rparr>"
| "step c Toggle = c\<lparr>live := toggleExpanded (live c)\<rparr>"

definition exec :: "action list \<Rightarrow> component \<Rightarrow> component" where
  "exec acts c = foldl step c acts"

text \<open>
  A serial run: the fetch settles first, and then every user action is
  carried through to its end before the next one, so no two calls of
  \<^verbatim>\<open>handleReserve\<close> are in flight together.
\<close>

datatype turn =
    Reserve props env
  | Pick int
  | Flip

fun turn_actions :: "turn \<Rightarrow> action list" where
  "turn_actions (Reserve p en) = [Click p en, Resume 0, Resume 0]"
| "turn_actions (Pick v) = [Select v]"
| "turn_actions Flip = [Toggle]"

definition serial_run :: "(js_error + entry list) \<Rightarrow> turn list \<Rightarrow> state" where
  "serial_run fetched turns =
     live (exec (Fetched fetched # concat (map turn_actions turns)) mounted)"

subsection \<open>Example inputs\<close>

definition ex_props :: "string option \<Rightarrow> props" where
  "ex_props w =
     \<lparr>ident = ''reserve'', walletAddress = w,
      recipientAddress = ''0xRecipient'', userQualifies = True\<rparr>"

definition ex_env_ok :: env where
  "ex_env_ok =
     \<lparr>newBrowserProvider = Inr (), getSigner = Inr (), getNetwork = Inr 33139,
      switchToApeChain = Inr (),
      sendTransaction = (\<lambda>to v. Inr ()), txWait = Inr (),
      updateWhitelist = (\<lambda>a c. Inr ())\<rparr>"

definition ex_state :: "entry list \<Rightarrow> int \<Rightarrow> state" where
  "ex_state wl q =
     \<lparr>selectedCount = q, whitelist = wl, totalReserved = count_total wl,
      loading = False, expanded = False\<rparr>"

definition ex_error :: "string option \<Rightarrow> string option \<Rightarrow> string option \<Rightarrow> js_error" where
  "ex_error c r m = \<lparr>code = c, reason = r, message = m\<rparr>"

definition ex_env_send_fails :: "js_error \<Rightarrow> env" where
  "ex_env_send_fails e = ex_env_ok\<lparr>sendTransaction := (\<lambda>to v. Inl e)\<rparr>"

definition ex_env_store_fails :: "js_error \<Rightarrow> env" where
  "ex_env_store_fails e = ex_env_ok\<lparr>updateWhitelist := (\<lambda>a c. Inl e)\<rparr>"

section \<open>Auxiliary facts\<close>

subsection \<open>Unfolding\<close>

lemmas ex_defs = ex_props_def ex_env_ok_def ex_state_def count_total_def
  ape_chain_id_def cap_def wei_per_ether_def on_required_chain_def

lemmas ex_env_defs = ex_error_def ex_env_send_fails_def ex_env_store_fails_def

lemmas handler_defs = handleReserve_def reserve_try_def reserve_pay_def reserve_commit_def
  reserve_catch_def updatedWhitelist_def bump_entry_def Let_def

subsection \<open>The whitelist update\<close>

lemma foldl_count_acc:
  "foldl (\<lambda>total e. total + count e) a es = a + sum_list (map count es)"
  by (induction es arbitrary: a) simp_all

lemma count_total_sum_list: "count_total es = sum_list (map count es)"
  by (simp add: count_total_def foldl_count_acc)

lemma address_bump_entry [simp]: "address (bump_entry w q e) = address e"
  by (simp add: bump_entry_def)

lemma bump_entry_eq:
  "bump_entry w q e =
     (if address e = w then \<lparr>address = w, count = count e + q\<rparr> else e)"
  by (cases e) (simp add: bump_entry_def)

lemma list_ex_address: "list_ex (\<lambda>e. address e = w) wl \<longleftrightarrow> w \<in> set (map address wl)"
  by (auto simp: list_ex_iff)

lemma map_address_updated:
  "map address (updatedWhitelist w q wl) =
     (if w \<in> set (map address wl) then map address wl else map address wl @ [w])"
  by (simp add: updatedWhitelist_def list_ex_address Let_def comp_def del: set_map)

lemma bump_absent:
  "w \<notin> set (map address wl) \<Longrightarrow> map (bump_entry w q) wl = wl"
  by (induction wl) (auto simp: bump_entry_def)

lemma sum_bump_absent:
  "w \<notin> set (map address wl) \<Longrightarrow>
   (\<Sum>e\<leftarrow>wl. count (bump_entry w q e)) = sum_list (map count wl)"
  by (induction wl) (auto simp: bump_entry_def)

lemma sum_bump_distinct:
  "distinct (map address wl) \<Longrightarrow> w \<in> set (map address wl) \<Longrightarrow>
   (\<Sum>e\<leftarrow>wl. count (bump_entry w q e)) = sum_list (map count wl) + q"
proof (induction wl)
  case Nil
  then show ?case by simp
next
  case (Cons e es)
  show ?case
  proof (cases "address e = w")
    case True
    with Cons.prems have "w \<notin> set (map address es)" by auto
    then have "(\<Sum>e\<leftarrow>es. count (bump_entry w q e)) = sum_list (map count es)"
      by (rule sum_bump_absent)
    with True show ?thesis by (simp add: bump_entry_def)
  next
    case False
    with Cons show ?thesis by (auto simp: bump_entry_def)
  qed
qed

lemma sum_updated_distinct:
  "distinct (map address wl) \<Longrightarrow>
   sum_list (map count (updatedWhitelist w q wl)) = sum_list (map count wl) + q"
  by (cases "w \<in> set (map address wl)")
     (simp_all add: updatedWhitelist_def list_ex_address sum_bump_distinct sum_bump_absent
        comp_def del: set_map)

lemma distinct_updated:
  "distinct (map address (updatedWhitelist w q wl)) \<longleftrightarrow> distinct (map address wl)"
  by (auto simp add: map_address_updated simp del: set_map)

subsection \<open>Decimal strings\<close>

lemma below_ten:
  "d < 10 \<Longrightarrow> d = 0 \<or> d = 1 \<or> d = 2 \<or> d = 3 \<or> d = 4 \<or> d = 5 \<or> d = 6 \<or> d = 7 \<or> d = 8 \<or> d = (9::nat)"
  by arith

lemma digit_value_digit_char: "d < 10 \<Longrightarrow> digit_value (digit_char d) = Some d"
  by (drule below_ten) (auto simp add: digit_value_def digit_char_def digit_chars_def)

lemma digit_char_not_minus: "digit_char d \<noteq> CHR ''-''"
proof -
  have "d mod 10 < 10" by simp
  from below_ten [OF this] show ?thesis
    by (auto simp add: digit_char_def digit_chars_def)
qed

lemma parse_digits_snoc:
  "parse_digits acc (cs @ [c]) =
     (case parse_digits acc cs of
        None \<Rightarrow> None
      | Some m \<Rightarrow> (case digit_value c of None \<Rightarrow> None | Some d \<Rightarrow> Some (m * 10 + d)))"
  by (induction cs arbitrary: acc) (auto split: option.splits)

lemma parse_digits_digits_of: "parse_digits 0 (digits_of n) = Some n"
proof (induction n rule: digits_of.induct)
  case (1 n)
  show ?case
  proof (cases "n < 10")
    case True
    then show ?thesis
      by (subst digits_of.simps) (simp add: digit_value_digit_char)
  next
    case False
    with 1 have "parse_digits 0 (digits_of (n div 10)) = Some (n div 10)" by simp
    with False show ?thesis
      by (subst digits_of.simps) (simp add: parse_digits_snoc digit_value_digit_char)
  qed
qed

lemma digits_of_not_Nil: "digits_of n \<noteq> []"
  by (subst digits_of.simps) simp

lemma hd_digits_of_not_minus: "hd (digits_of n) \<noteq> CHR ''-''"
proof (induction n rule: digits_of.induct)
  case (1 n)
  show ?case
  proof (cases "n < 10")
    case True
    then show ?thesis
      by (subst digits_of.simps) (simp add: digit_char_not_minus)
  next
    case False
    with 1 have "hd (digits_of (n div 10)) \<noteq> CHR ''-''" by simp
    with False show ?thesis
      by (subst digits_of.simps) (simp add: digits_of_not_Nil)
  qed
qed

lemma parse_decimal_toString: "parse_decimal (toString n) = Some n"
proof (cases "n < 0")
  case True
  then show ?thesis
    by (simp add: parse_decimal_def toString_def digits_of_not_Nil parse_digits_digits_of)
next
  case False
  obtain c cs where cs: "digits_of (nat n) = c # cs"
    using digits_of_not_Nil [of "nat n"] by (cases "digits_of (nat n)") auto
  with hd_digits_of_not_minus [of "nat n"] have "c \<noteq> CHR ''-''" by simp
  moreover have "parse_digits 0 (c # cs) = Some (nat n)"
    using parse_digits_digits_of [of "nat n"] cs by simp
  ultimately show ?thesis
    using False cs by (simp add: parse_decimal_def toString_def)
qed

lemma parseEther_toString: "parseEther (toString n) = Inr (n * wei_per_ether)"
  by (simp add: parseEther_def parse_decimal_toString)

subsection \<open>The handler as a whole\<close>

lemma reserve_commit_eq:
  "reserve_commit en wallet s =
     (case updateWhitelist en wallet (selectedCount s) of Inl e \<Rightarrow> Some e | Inr _ \<Rightarrow> None,
      s\<lparr>whitelist := updatedWhitelist wallet (selectedCount s) (whitelist s),
        totalReserved := totalReserved s + selectedCount s\<rparr>,
      [SetWhitelist (updatedWhitelist wallet (selectedCount s) (whitelist s)),
       SetTotalReserved (totalReserved s + selectedCount s),
       UpdateWhitelist wallet (selectedCount s)] @
      (case updateWhitelist en wallet (selectedCount s) of
         Inl e \<Rightarrow> [] | Inr _ \<Rightarrow> [Alert success_msg]))"
  by (simp add: reserve_commit_def Let_def split: sum.splits)

text \<open>The run after a confirmed payment, in full.\<close>

lemma handleReserve_confirmed:
  assumes "payment_confirmed p en s wallet"
  shows "handleReserve p en s =
     (s\<lparr>whitelist := updatedWhitelist wallet (selectedCount s) (whitelist s),
        totalReserved := totalReserved s + selectedCount s,
        loading := False\<rparr>,
      [SetLoading True, NewBrowserProvider, GetSigner, GetNetwork,
       SendTransaction (recipientAddress p) (selectedCount s * 2 * wei_per_ether), TxWait,
       SetWhitelist (updatedWhitelist wallet (selectedCount s) (whitelist s)),
       SetTotalReserved (totalReserved s + selectedCount s),
       UpdateWhitelist wallet (selectedCount s)] @
      (case updateWhitelist en wallet (selectedCount s) of
         Inl e \<Rightarrow> [ConsoleError e, Alert (error_alert e)]
       | Inr _ \<Rightarrow> [Alert success_msg]) @
      [SetLoading False])"
  using assms
  by (simp add: payment_confirmed_def on_required_chain_def handleReserve_def reserve_try_def reserve_pay_def
      reserve_commit_eq reserve_catch_def parseEther_toString split: sum.splits)

text \<open>The three states a run can end in.\<close>

lemma handleReserve_state_cases:
  "fst (handleReserve p en s) = s \<or>
   fst (handleReserve p en s) = s\<lparr>loading := False\<rparr> \<or>
   (\<exists>wallet. totalReserved s + selectedCount s \<le> cap \<and>
      fst (handleReserve p en s) =
        s\<lparr>whitelist := updatedWhitelist wallet (selectedCount s) (whitelist s),
          totalReserved := totalReserved s + selectedCount s,
          loading := False\<rparr>)"
  by (auto simp add: handleReserve_def reserve_try_def reserve_pay_def
      reserve_commit_eq reserve_catch_def parseEther_toString
      split: sum.splits option.splits)

text \<open>The shapes of a trace, by how far the run gets.\<close>

lemma handleReserve_trace_cases:
  "snd (handleReserve p en s) = [Alert connect_wallet_msg] \<or>
   (\<exists>tail. snd (handleReserve p en s) = SetLoading True # NewBrowserProvider # tail \<and>
      TxWait \<notin> set tail \<and> (\<forall>ev \<in> set tail. \<not> is_reservation_update ev) \<and>
      (\<forall>to v. SendTransaction to v \<notin> set tail)) \<or>
   (\<exists>tail. snd (handleReserve p en s) =
       [SetLoading True, NewBrowserProvider, GetSigner, GetNetwork,
        SendTransaction (recipientAddress p) (selectedCount s * 2 * wei_per_ether)] @ tail \<and>
      TxWait \<notin> set tail \<and> (\<forall>ev \<in> set tail. \<not> is_reservation_update ev) \<and>
      (\<forall>to v. SendTransaction to v \<notin> set tail)) \<or>
   (\<exists>tail. snd (handleReserve p en s) =
       [SetLoading True, NewBrowserProvider, GetSigner, GetNetwork,
        SendTransaction (recipientAddress p) (selectedCount s * 2 * wei_per_ether), TxWait] @ tail \<and>
      (txWait en \<noteq> Inr () \<longrightarrow> (\<forall>ev \<in> set tail. \<not> is_reservation_update ev)) \<and>
      (\<forall>to v. SendTransaction to v \<notin> set tail))"
  by (auto simp add: handleReserve_def reserve_try_def reserve_pay_def
      reserve_commit_eq reserve_catch_def parseEther_toString
      split: sum.splits option.splits)

text \<open>Without a confirmed transfer the two tallies stay as they were.\<close>

lemma handleReserve_unconfirmed:
  assumes "sendTransaction en (recipientAddress p) (selectedCount s * 2 * wei_per_ether) \<noteq> Inr ()
           \<or> txWait en \<noteq> Inr ()"
  shows "whitelist (fst (handleReserve p en s)) = whitelist s
       \<and> totalReserved (fst (handleReserve p en s)) = totalReserved s"
  using assms
  by (auto simp add: handleReserve_def reserve_try_def reserve_pay_def
      reserve_commit_eq reserve_catch_def parseEther_toString
      split: sum.splits option.splits)

text \<open>
  Where the \<^verbatim>\<open>try\<close> block throws: at the construction of the provider
  or at one of the six awaited calls, the first that fails on the path taken.
\<close>

lemma thrown_cases:
  "thrown p en wallet s = Some e \<longleftrightarrow>
     newBrowserProvider en = Inl e
   \<or> newBrowserProvider en = Inr () \<and> getSigner en = Inl e
   \<or> newBrowserProvider en = Inr () \<and> getSigner en = Inr () \<and> getNetwork en = Inl e
   \<or> newBrowserProvider en = Inr () \<and> getSigner en = Inr () \<and>
       (\<exists>c. getNetwork en = Inr c \<and> c \<noteq> ape_chain_id) \<and> switchToApeChain en = Inl e
   \<or> on_required_chain en \<and> totalReserved s + selectedCount s \<le> cap \<and>
       (sendTransaction en (recipientAddress p) (selectedCount s * 2 * wei_per_ether) = Inl e
        \<or> sendTransaction en (recipientAddress p) (selectedCount s * 2 * wei_per_ether) = Inr () \<and>
          (txWait en = Inl e
           \<or> txWait en = Inr () \<and> updateWhitelist en wallet (selectedCount s) = Inl e))"
  by (auto simp add: thrown_def reserve_try_def reserve_pay_def on_required_chain_def
      reserve_commit_eq parseEther_toString
      split: sum.splits option.splits)

lemma handleReserve_thrown_alerts:
  assumes "walletAddress p = Some wallet" and "wallet \<noteq> []"
    and "thrown p en wallet s = Some e"
  shows "alerts (snd (handleReserve p en s)) = [error_alert e]"
  using assms
  by (auto simp add: thrown_def handleReserve_def reserve_try_def reserve_pay_def
      reserve_commit_eq reserve_catch_def parseEther_toString
      split: sum.splits option.splits if_splits)

text \<open>The state a run ends in when no wallet is connected, and when the payment is not confirmed.\<close>

lemma handleReserve_no_wallet:
  "\<not> truthy (walletAddress p) \<Longrightarrow> fst (handleReserve p en s) = s"
  by (auto simp add: truthy_def handleReserve_def split: option.splits)

lemma handleReserve_not_confirmed:
  assumes "walletAddress p = Some wallet" and "wallet \<noteq> []"
    and "\<not> payment_confirmed p en s wallet"
  shows "fst (handleReserve p en s) = s\<lparr>loading := False\<rparr>"
  using assms
  by (auto simp add: payment_confirmed_def on_required_chain_def handleReserve_def
      reserve_try_def reserve_pay_def reserve_commit_eq reserve_catch_def parseEther_toString
      split: sum.splits option.splits)

text \<open>What comes before the transfer, and before the wait for its confirmation.\<close>

lemma before_transfer:
  "(\<forall>to v. SendTransaction to v \<in> set (snd (handleReserve p en s)) \<longrightarrow>
      takeWhile (\<lambda>ev. ev \<noteq> SendTransaction to v) (snd (handleReserve p en s)) =
        [SetLoading True, NewBrowserProvider, GetSigner, GetNetwork])
   \<and> (TxWait \<in> set (snd (handleReserve p en s)) \<longrightarrow>
      takeWhile (\<lambda>ev. ev \<noteq> TxWait) (snd (handleReserve p en s)) =
        [SetLoading True, NewBrowserProvider, GetSigner, GetNetwork,
         SendTransaction (recipientAddress p) (selectedCount s * 2 * wei_per_ether)])"
  using handleReserve_trace_cases [of p en s]
  by (elim disjE exE conjE) (auto simp add: connect_wallet_msg_def)

subsection \<open>Runs of the component\<close>

lemma exec_append: "exec (xs @ ys) c = exec ys (exec xs c)"
  by (simp add: exec_def)

text \<open>
  A call that is alone in flight, carried through to its end, leaves the state
  that \<^verbatim>\<open>handleReserve\<close> computes from the state it was clicked in.
\<close>

lemma reserve_alone:
  "exec (turn_actions (Reserve p en)) \<lparr>live = s, in_flight = []\<rparr> =
     \<lparr>live = fst (handleReserve p en s), in_flight = []\<rparr>"
proof (cases "walletAddress p")
  case None
  then show ?thesis
    by (simp add: exec_def click_def resume_def truthy_def handleReserve_no_wallet)
next
  case (Some wallet)
  show ?thesis
  proof (cases "wallet = []")
    case True
    with Some show ?thesis
      by (simp add: exec_def click_def resume_def truthy_def handleReserve_no_wallet)
  next
    case False
    show ?thesis
    proof (cases "payment_confirmed p en s wallet")
      case True
      with Some False show ?thesis
        by (simp add: exec_def click_def resume_def truthy_def passes_wait_def
            local_update_def Let_def handleReserve_confirmed [OF True])
    next
      case no: False
      with Some False show ?thesis
        by (simp add: exec_def click_def resume_def truthy_def passes_wait_def Let_def
            handleReserve_not_confirmed [OF Some False no])
    qed
  qed
qed

lemma turn_alone:
  "exec (turn_actions t) \<lparr>live = s, in_flight = []\<rparr> =
     \<lparr>live = (case t of Reserve p en \<Rightarrow> fst (handleReserve p en s)
                | Pick v \<Rightarrow> setSelectedCount v s
                | Flip \<Rightarrow> toggleExpanded s),
      in_flight = []\<rparr>"
proof (cases t)
  case (Reserve p en)
  then show ?thesis using reserve_alone [of p en s] by simp
next
  case (Pick v)
  then show ?thesis by (simp add: exec_def)
next
  case Flip
  then show ?thesis by (simp add: exec_def)
qed

lemma serial_component:
  "exec (Fetched fetched # concat (map turn_actions turns)) mounted =
     \<lparr>live = serial_run fetched turns, in_flight = []\<rparr>"
proof (induction turns rule: rev_induct)
  case Nil
  show ?case by (simp add: serial_run_def exec_def mounted_def)
next
  case (snoc t turns)
  have "exec (Fetched fetched # concat (map turn_actions (turns @ [t]))) mounted =
        exec (turn_actions t) (exec (Fetched fetched # concat (map turn_actions turns)) mounted)"
    using exec_append [of "Fetched fetched # concat (map turn_actions turns)" "turn_actions t"]
    by simp
  also have "\<dots> = exec (turn_actions t) \<lparr>live = serial_run fetched turns, in_flight = []\<rparr>"
    by (simp only: snoc.IH)
  finally have e: "exec (Fetched fetched # concat (map turn_actions (turns @ [t]))) mounted =
      exec (turn_actions t) \<lparr>live = serial_run fetched turns, in_flight = []\<rparr>" .
  show ?case
    by (simp only: e turn_alone serial_run_def [of fetched "turns @ [t]"]) simp
qed

lemma serial_run_Nil: "serial_run fetched [] = fst (loadWhitelist fetched init_state)"
  by (simp add: serial_run_def exec_def mounted_def)

lemma serial_run_snoc:
  "serial_run fetched (turns @ [t]) =
     (case t of Reserve p en \<Rightarrow> fst (handleReserve p en (serial_run fetched turns))
      | Pick v \<Rightarrow> setSelectedCount v (serial_run fetched turns)
      | Flip \<Rightarrow> toggleExpanded (serial_run fetched turns))"
proof -
  have "exec (Fetched fetched # concat (map turn_actions (turns @ [t]))) mounted =
        exec (turn_actions t) (exec (Fetched fetched # concat (map turn_actions turns)) mounted)"
    using exec_append [of "Fetched fetched # concat (map turn_actions turns)" "turn_actions t"]
    by simp
  then have "\<lparr>live = serial_run fetched (turns @ [t]), in_flight = []\<rparr> =
      exec (turn_actions t) \<lparr>live = serial_run fetched turns, in_flight = []\<rparr>"
    by (simp only: serial_component)
  then show ?thesis by (simp only: turn_alone) simp
qed

text \<open>In a serial run the total follows the list, as long as addresses are not repeated.\<close>

lemma loaded_total:
  "totalReserved (fst (loadWhitelist fetched init_state)) =
     sum_list (map count (whitelist (fst (loadWhitelist fetched init_state))))"
  by (cases fetched) (simp_all add: loadWhitelist_def init_state_def count_total_sum_list)

lemma turn_distinct:
  "distinct (map address (whitelist
      (case t of Reserve p en \<Rightarrow> fst (handleReserve p en s)
       | Pick v \<Rightarrow> setSelectedCount v s
       | Flip \<Rightarrow> toggleExpanded s))) \<longleftrightarrow>
   distinct (map address (whitelist s))"
proof (cases t)
  case (Reserve p en)
  from handleReserve_state_cases [of p en s] show ?thesis
    by (auto simp add: Reserve distinct_updated simp del: set_map)
next
  case (Pick v)
  then show ?thesis by (simp add: setSelectedCount_def)
next
  case Flip
  then show ?thesis by (simp add: toggleExpanded_def)
qed

lemma turn_total:
  assumes "distinct (map address (whitelist s))"
    and "totalReserved s = sum_list (map count (whitelist s))"
  shows "totalReserved
      (case t of Reserve p en \<Rightarrow> fst (handleReserve p en s)
       | Pick v \<Rightarrow> setSelectedCount v s
       | Flip \<Rightarrow> toggleExpanded s) =
    sum_list (map count (whitelist
      (case t of Reserve p en \<Rightarrow> fst (handleReserve p en s)
       | Pick v \<Rightarrow> setSelectedCount v s
       | Flip \<Rightarrow> toggleExpanded s)))"
proof (cases t)
  case (Reserve p en)
  from handleReserve_state_cases [of p en s] assms show ?thesis
    by (auto simp add: Reserve sum_updated_distinct)
next
  case (Pick v)
  with assms show ?thesis by (simp add: setSelectedCount_def)
next
  case Flip
  with assms show ?thesis by (simp add: toggleExpanded_def)
qed

lemma serial_distinct:
  "distinct (map address (whitelist (serial_run fetched turns))) \<longleftrightarrow>
   distinct (map address (whitelist (serial_run fetched [])))"
proof (induction turns rule: rev_induct)
  case Nil
  show ?case by simp
next
  case (snoc t turns)
  then show ?case by (simp only: serial_run_snoc turn_distinct)
qed

lemma serial_total:
  "distinct (map address (whitelist (serial_run fetched []))) \<Longrightarrow>
   totalReserved (serial_run fetched turns) =
     sum_list (map count (whitelist (serial_run fetched turns)))"
proof (induction turns rule: rev_induct)
  case Nil
  show ?case by (simp only: serial_run_Nil loaded_total)
next
  case (snoc t turns)
  have d: "distinct (map address (whitelist (serial_run fetched turns)))"
    using serial_distinct [of fetched turns] snoc.prems by blast
  have e: "totalReserved (serial_run fetched turns) =
     sum_list (map count (whitelist (serial_run fetched turns)))"
    using snoc.IH snoc.prems by blast
  show ?case by (simp only: serial_run_snoc turn_total [OF d e])
qed

subsection \<open>The display\<close>

lemma slice_last_ten: "slice_from (- 10) xs = drop (length xs - 10) xs"
  by (simp add: slice_from_def Let_def max_def nat_diff_distrib')

section \<open>The properties of the specification\<close>

subsection \<open>The cap\<close>

text \<open>
  Claim C1.  In any component state, when the wallet is connected, the signer
  and the network are obtained, the network is the required chain and
  \<open>totalReserved + selectedCount > 333\<close>, \<^verbatim>\<open>handleReserve\<close> does exactly
  this: \<^verbatim>\<open>setLoading(true)\<close>, the provider and its two calls, the alert
  that the limit is reached, \<^verbatim>\<open>setLoading(false)\<close>.  No transfer is
  sent, and the whitelist and \<^verbatim>\<open>totalReserved\<close> are what they were.
\<close>

theorem cap_exceeded_rejected:
  assumes "walletAddress p = Some wallet" and "wallet \<noteq> []"
    and "on_required_chain en"
    and "totalReserved s + selectedCount s > 333"
  shows "snd (handleReserve p en s) =
           [SetLoading True, NewBrowserProvider, GetSigner, GetNetwork, Alert limit_reached_msg, SetLoading False]
       \<and> (\<forall>to v. SendTransaction to v \<notin> set (snd (handleReserve p en s)))
       \<and> whitelist (fst (handleReserve p en s)) = whitelist s
       \<and> totalReserved (fst (handleReserve p en s)) = totalReserved s"
  using assms
  by (simp add: handleReserve_def reserve_try_def reserve_catch_def cap_def
      on_required_chain_def)

text \<open>
  The scenario of the specification: 330 reserved, 5 requested; the request
  is rejected and 3 remain available.
\<close>

theorem cap_exceeded_rejected_witness:
  "walletAddress (ex_props (Some ''0xB'')) = Some ''0xB'' \<and> ''0xB'' \<noteq> [] \<and>
   on_required_chain ex_env_ok \<and>
   totalReserved (ex_state [\<lparr>address = ''0xA'', count = 330\<rparr>] 5)
     + selectedCount (ex_state [\<lparr>address = ''0xA'', count = 330\<rparr>] 5) > 333 \<and>
   snd (handleReserve (ex_props (Some ''0xB'')) ex_env_ok
          (ex_state [\<lparr>address = ''0xA'', count = 330\<rparr>] 5)) =
     [SetLoading True, NewBrowserProvider, GetSigner, GetNetwork, Alert limit_reached_msg, SetLoading False] \<and>
   total_available (fst (handleReserve (ex_props (Some ''0xB'')) ex_env_ok
          (ex_state [\<lparr>address = ''0xA'', count = 330\<rparr>] 5))) = 3"
  using cap_exceeded_rejected [of "ex_props (Some ''0xB'')" "''0xB''" ex_env_ok
      "ex_state [\<lparr>address = ''0xA'', count = 330\<rparr>] 5"]
  by (simp add: ex_defs total_available_def)

subsection \<open>Merge or append\<close>

text \<open>
  Claim C2.  After a confirmed payment by a wallet that has no entry, the
  whitelist is the old one followed by the one entry \<open>(wallet, selectedCount)\<close>.
  After a confirmed payment by a wallet that has an entry, the list keeps its
  length (no entry is created), at every position an entry of the wallet has
  its count increased by the selected count and an entry of another address is
  unchanged; a list with at most one entry per address stays so.
\<close>

theorem merge_or_append:
  assumes "payment_confirmed p en s wallet"
  shows "(wallet \<notin> set (map address (whitelist s)) \<longrightarrow>
            whitelist (fst (handleReserve p en s)) =
              whitelist s @ [\<lparr>address = wallet, count = selectedCount s\<rparr>])
       \<and> (wallet \<in> set (map address (whitelist s)) \<longrightarrow>
            length (whitelist (fst (handleReserve p en s))) = length (whitelist s) \<and>
            (\<forall>i < length (whitelist s).
               whitelist (fst (handleReserve p en s)) ! i =
                 (if address (whitelist s ! i) = wallet
                  then \<lparr>address = wallet, count = count (whitelist s ! i) + selectedCount s\<rparr>
                  else whitelist s ! i)))
       \<and> (distinct (map address (whitelist s)) \<longrightarrow>
            distinct (map address (whitelist (fst (handleReserve p en s)))))"
proof -
  have st: "whitelist (fst (handleReserve p en s)) =
              updatedWhitelist wallet (selectedCount s) (whitelist s)"
    by (simp add: handleReserve_confirmed [OF assms])
  have new: "wallet \<notin> set (map address (whitelist s)) \<Longrightarrow>
      updatedWhitelist wallet (selectedCount s) (whitelist s) =
        whitelist s @ [\<lparr>address = wallet, count = selectedCount s\<rparr>]"
    by (simp add: updatedWhitelist_def list_ex_address bump_absent del: set_map)
  have old: "wallet \<in> set (map address (whitelist s)) \<Longrightarrow>
      updatedWhitelist wallet (selectedCount s) (whitelist s) =
        map (bump_entry wallet (selectedCount s)) (whitelist s)"
    by (simp add: updatedWhitelist_def list_ex_address del: set_map)
  show ?thesis
    using new old by (simp add: st bump_entry_eq distinct_updated del: set_map)
qed

text \<open>
  The scenario of the specification: address A holds 2 and requests 3, the
  entry becomes 5 and stays the only one; another address B is appended with 3.
\<close>

theorem merge_or_append_witness:
  "payment_confirmed (ex_props (Some ''0xA'')) ex_env_ok
     (ex_state [\<lparr>address = ''0xA'', count = 2\<rparr>] 3) ''0xA'' \<and>
   whitelist (fst (handleReserve (ex_props (Some ''0xA'')) ex_env_ok
     (ex_state [\<lparr>address = ''0xA'', count = 2\<rparr>] 3))) = [\<lparr>address = ''0xA'', count = 5\<rparr>] \<and>
   payment_confirmed (ex_props (Some ''0xB'')) ex_env_ok
     (ex_state [\<lparr>address = ''0xA'', count = 2\<rparr>] 3) ''0xB'' \<and>
   whitelist (fst (handleReserve (ex_props (Some ''0xB'')) ex_env_ok
     (ex_state [\<lparr>address = ''0xA'', count = 2\<rparr>] 3))) =
     [\<lparr>address = ''0xA'', count = 2\<rparr>, \<lparr>address = ''0xB'', count = 3\<rparr>]"
proof -
  have a: "payment_confirmed (ex_props (Some ''0xA'')) ex_env_ok
     (ex_state [\<lparr>address = ''0xA'', count = 2\<rparr>] 3) ''0xA''"
    by (simp add: payment_confirmed_def on_required_chain_def ex_defs)
  have b: "payment_confirmed (ex_props (Some ''0xB'')) ex_env_ok
     (ex_state [\<lparr>address = ''0xA'', count = 2\<rparr>] 3) ''0xB''"
    by (simp add: payment_confirmed_def on_required_chain_def ex_defs)
  have la: "length (whitelist (fst (handleReserve (ex_props (Some ''0xA'')) ex_env_ok
     (ex_state [\<lparr>address = ''0xA'', count = 2\<rparr>] 3)))) = 1"
    and na: "whitelist (fst (handleReserve (ex_props (Some ''0xA'')) ex_env_ok
     (ex_state [\<lparr>address = ''0xA'', count = 2\<rparr>] 3))) ! 0 = \<lparr>address = ''0xA'', count = 5\<rparr>"
    using merge_or_append [OF a] by (simp_all add: ex_state_def)
  have "whitelist (fst (handleReserve (ex_props (Some ''0xA'')) ex_env_ok
     (ex_state [\<lparr>address = ''0xA'', count = 2\<rparr>] 3))) = [\<lparr>address = ''0xA'', count = 5\<rparr>]"
    using la na by (cases "whitelist (fst (handleReserve (ex_props (Some ''0xA'')) ex_env_ok
     (ex_state [\<lparr>address = ''0xA'', count = 2\<rparr>] 3)))") auto
  moreover have "whitelist (fst (handleReserve (ex_props (Some ''0xB'')) ex_env_ok
     (ex_state [\<lparr>address = ''0xA'', count = 2\<rparr>] 3))) =
     [\<lparr>address = ''0xA'', count = 2\<rparr>, \<lparr>address = ''0xB'', count = 3\<rparr>]"
    using merge_or_append [OF b] by (simp add: ex_state_def)
  ultimately show ?thesis using a b by simp
qed

subsection \<open>The write to the remote store\<close>

text \<open>
  Claim C3, as stated, fails: the value passed to \<^verbatim>\<open>updateWhitelist\<close> is
  not the merged count of a repeat address.  Address A holds 2 and pays for 3:
  the local entry becomes 5, the remote store is called with 3.
\<close>

theorem remote_write_merged_counterexample:
  "payment_confirmed (ex_props (Some ''0xA'')) ex_env_ok
     (ex_state [\<lparr>address = ''0xA'', count = 2\<rparr>] 3) ''0xA'' \<and>
   remote_writes (snd (handleReserve (ex_props (Some ''0xA'')) ex_env_ok
     (ex_state [\<lparr>address = ''0xA'', count = 2\<rparr>] 3))) = [(''0xA'', 3)] \<and>
   whitelist (fst (handleReserve (ex_props (Some ''0xA'')) ex_env_ok
     (ex_state [\<lparr>address = ''0xA'', count = 2\<rparr>] 3))) = [\<lparr>address = ''0xA'', count = 5\<rparr>]"
  by (simp add: payment_confirmed_def on_required_chain_def handler_defs parseEther_toString ex_defs)

text \<open>
  Claim C3, amended.  After a confirmed transfer the run is: the loading flag,
  the provider and its two calls, the transfer, its confirmation, the two
  local updates, and only then the one call of \<^verbatim>\<open>updateWhitelist\<close>, with
  the wallet address and the selected count.  For a new address this is the
  count of the one local entry of the wallet; for a repeat address the local
  entry holds the previous count plus the selected count, and the value
  passed is still the selected count.
\<close>

theorem remote_write_is_selected_count:
  assumes "payment_confirmed p en s wallet"
  shows "snd (handleReserve p en s) =
           [SetLoading True, NewBrowserProvider, GetSigner, GetNetwork,
            SendTransaction (recipientAddress p) (selectedCount s * 2 * wei_per_ether), TxWait,
            SetWhitelist (whitelist (fst (handleReserve p en s))),
            SetTotalReserved (totalReserved (fst (handleReserve p en s))),
            UpdateWhitelist wallet (selectedCount s)] @
           (case updateWhitelist en wallet (selectedCount s) of
              Inl e \<Rightarrow> [ConsoleError e, Alert (error_alert e)]
            | Inr _ \<Rightarrow> [Alert success_msg]) @
           [SetLoading False]
       \<and> remote_writes (snd (handleReserve p en s)) = [(wallet, selectedCount s)]
       \<and> (wallet \<notin> set (map address (whitelist s)) \<longrightarrow>
            filter (\<lambda>e. address e = wallet) (whitelist (fst (handleReserve p en s))) =
              [\<lparr>address = wallet, count = selectedCount s\<rparr>])
       \<and> (\<forall>i < length (whitelist s). address (whitelist s ! i) = wallet \<longrightarrow>
            whitelist (fst (handleReserve p en s)) ! i =
              \<lparr>address = wallet, count = count (whitelist s ! i) + selectedCount s\<rparr>)"
proof -
  have order: "snd (handleReserve p en s) =
           [SetLoading True, NewBrowserProvider, GetSigner, GetNetwork,
            SendTransaction (recipientAddress p) (selectedCount s * 2 * wei_per_ether), TxWait,
            SetWhitelist (whitelist (fst (handleReserve p en s))),
            SetTotalReserved (totalReserved (fst (handleReserve p en s))),
            UpdateWhitelist wallet (selectedCount s)] @
           (case updateWhitelist en wallet (selectedCount s) of
              Inl e \<Rightarrow> [ConsoleError e, Alert (error_alert e)]
            | Inr _ \<Rightarrow> [Alert success_msg]) @
           [SetLoading False]"
    by (simp add: handleReserve_confirmed [OF assms])
  have tr: "remote_writes (snd (handleReserve p en s)) = [(wallet, selectedCount s)]"
    by (simp add: handleReserve_confirmed [OF assms] split: sum.splits)
  have st: "whitelist (fst (handleReserve p en s)) =
              updatedWhitelist wallet (selectedCount s) (whitelist s)"
    by (simp add: handleReserve_confirmed [OF assms])
  have absent: "filter (\<lambda>e. address e = wallet) wl = []"
    if "wallet \<notin> set (map address wl)" for wl
    using that by (induction wl) auto
  have new: "wallet \<notin> set (map address (whitelist s)) \<longrightarrow>
      filter (\<lambda>e. address e = wallet) (whitelist (fst (handleReserve p en s))) =
        [\<lparr>address = wallet, count = selectedCount s\<rparr>]"
    by (simp add: st updatedWhitelist_def list_ex_address bump_absent absent del: set_map)
  have old: "\<forall>i < length (whitelist s). address (whitelist s ! i) = wallet \<longrightarrow>
      whitelist (fst (handleReserve p en s)) ! i =
        \<lparr>address = wallet, count = count (whitelist s ! i) + selectedCount s\<rparr>"
    by (simp add: st updatedWhitelist_def Let_def nth_append bump_entry_eq)
  from order tr new old show ?thesis by (intro conjI)
qed

text \<open>At the input of the counterexample: 3 is written, the local entry holds 5.\<close>

theorem remote_write_is_selected_count_witness:
  "payment_confirmed (ex_props (Some ''0xA'')) ex_env_ok
     (ex_state [\<lparr>address = ''0xA'', count = 2\<rparr>] 3) ''0xA'' \<and>
   remote_writes (snd (handleReserve (ex_props (Some ''0xA'')) ex_env_ok
     (ex_state [\<lparr>address = ''0xA'', count = 2\<rparr>] 3))) = [(''0xA'', 3)] \<and>
   whitelist (fst (handleReserve (ex_props (Some ''0xA'')) ex_env_ok
     (ex_state [\<lparr>address = ''0xA'', count = 2\<rparr>] 3))) ! 0 = \<lparr>address = ''0xA'', count = 5\<rparr>"
proof -
  have a: "payment_confirmed (ex_props (Some ''0xA'')) ex_env_ok
     (ex_state [\<lparr>address = ''0xA'', count = 2\<rparr>] 3) ''0xA''"
    by (simp add: payment_confirmed_def ex_defs)
  note written = remote_write_is_selected_count [OF a, THEN conjunct2, THEN conjunct1]
  note merged = remote_write_is_selected_count [OF a, THEN conjunct2, THEN conjunct2,
      THEN conjunct2]
  show ?thesis
    using a written merged by (simp add: ex_state_def)
qed

subsection \<open>The total shown as available\<close>

text \<open>
  Claim C4, as stated, fails when two calls of \<^verbatim>\<open>handleReserve\<close> overlap.
  The list is empty; the button is clicked twice for one spot by the same
  wallet before either payment is confirmed.  Both calls write the list of
  their closure with one entry added, each adds one to the total: the page
  shows 331 available, the list sums to 1.
\<close>

theorem total_tracks_sum_counterexample:
  "total_available (live (exec
     [Fetched (Inr []),
      Click (ex_props (Some ''0xA'')) ex_env_ok, Click (ex_props (Some ''0xA'')) ex_env_ok,
      Resume 0, Resume 1, Resume 0, Resume 0] mounted)) = 331 \<and>
   333 - sum_list (map count (whitelist (live (exec
     [Fetched (Inr []),
      Click (ex_props (Some ''0xA'')) ex_env_ok, Click (ex_props (Some ''0xA'')) ex_env_ok,
      Resume 0, Resume 1, Resume 0, Resume 0] mounted)))) = 332 \<and>
   in_flight (exec
     [Fetched (Inr []),
      Click (ex_props (Some ''0xA'')) ex_env_ok, Click (ex_props (Some ''0xA'')) ex_env_ok,
      Resume 0, Resume 1, Resume 0, Resume 0] mounted) = []"
  by (simp add: exec_def mounted_def init_state_def loadWhitelist_def click_def resume_def
      passes_wait_def local_update_def payment_confirmed_def truthy_def total_available_def
      updatedWhitelist_def bump_entry_def Let_def ex_defs)

text \<open>
  Claim C4, amended.  In a serial run (the fetch settles before the first
  click, and no call of \<^verbatim>\<open>handleReserve\<close> overlaps another), when the
  list loaded on mount has at most one entry per address (or the fetch fails
  and the list stays empty), every state reached by any sequence of
  reservations, selections and toggles shows as available 333 minus the sum
  of the counts of the whitelist: \<^verbatim>\<open>totalReserved\<close> equals the
  \<^verbatim>\<open>reduce\<close> over the current list.
\<close>

theorem total_tracks_sum:
  assumes "distinct (map address (whitelist (serial_run fetched [])))"
  shows "total_available (serial_run fetched turns) =
           333 - sum_list (map count (whitelist (serial_run fetched turns)))
       \<and> totalReserved (serial_run fetched turns) =
           count_total (whitelist (serial_run fetched turns))"
  using serial_total [OF assms, of turns]
  by (simp add: total_available_def count_total_sum_list)

text \<open>
  The scenario of the specification: an empty whitelist, one spot requested;
  332 remain available and the list holds the one entry.
\<close>

theorem total_tracks_sum_witness:
  "distinct (map address (whitelist (serial_run (Inr []) []))) \<and>
   total_available (serial_run (Inr []) [Reserve (ex_props (Some ''0xA'')) ex_env_ok]) = 332 \<and>
   whitelist (serial_run (Inr []) [Reserve (ex_props (Some ''0xA'')) ex_env_ok]) =
     [\<lparr>address = ''0xA'', count = 1\<rparr>]"
proof -
  have d: "distinct (map address (whitelist (serial_run (Inr []) [])))"
    by (simp add: serial_run_Nil loadWhitelist_def init_state_def)
  have w: "whitelist (serial_run (Inr []) [Reserve (ex_props (Some ''0xA'')) ex_env_ok]) =
     [\<lparr>address = ''0xA'', count = 1\<rparr>]"
    by (simp add: serial_run_def exec_def mounted_def init_state_def loadWhitelist_def
        click_def resume_def passes_wait_def local_update_def payment_confirmed_def
        truthy_def updatedWhitelist_def bump_entry_def Let_def ex_defs)
  show ?thesis
    using d w total_tracks_sum [OF d, of "[Reserve (ex_props (Some ''0xA'')) ex_env_ok]"]
    by simp
qed

subsection \<open>The invariant of the data model\<close>




subsection \<open>The transfer\<close>

text \<open>
  Claim C6, as stated, fails in its last part: one state update comes before
  the transfer and its confirmation, \<^verbatim>\<open>setLoading(true)\<close>.  A wallet pays
  for four spots; this is the whole run.
\<close>

theorem state_update_before_confirmation_counterexample:
  "snd (handleReserve (ex_props (Some ''0xA'')) ex_env_ok (ex_state [] 4)) =
     [SetLoading True, NewBrowserProvider, GetSigner, GetNetwork,
      SendTransaction ''0xRecipient'' 8000000000000000000, TxWait,
      SetWhitelist [\<lparr>address = ''0xA'', count = 4\<rparr>], SetTotalReserved 4,
      UpdateWhitelist ''0xA'' 4, Alert success_msg, SetLoading False]"
  by (simp add: handler_defs parseEther_toString ex_defs)

text \<open>
  Claim C6, amended.  For a selected count from 1 to 10, every transfer that
  \<^verbatim>\<open>handleReserve\<close> submits goes to \<^verbatim>\<open>recipientAddress\<close> and has the
  value \<^verbatim>\<open>parseEther\<close> gives for the decimal string of twice the count,
  which is twice the count in the unit currency; the transfer is submitted
  whenever the wallet, the network and the cap allow it.  What comes before
  the transfer is exactly \<^verbatim>\<open>setLoading(true)\<close>, the provider and its two
  calls, and between the transfer and \<^verbatim>\<open>tx.wait()\<close> nothing: the one
  state update before the confirmation is \<^verbatim>\<open>setLoading(true)\<close>.  No
  update of the whitelist or of \<^verbatim>\<open>totalReserved\<close> comes before
  \<^verbatim>\<open>tx.wait()\<close>, and none happens unless it resolves: when the transfer
  or its confirmation fails both are unchanged.
\<close>

theorem transfer_value_and_recipient:
  assumes "1 \<le> selectedCount s" and "selectedCount s \<le> 10"
  shows "(\<forall>to v. SendTransaction to v \<in> set (snd (handleReserve p en s)) \<longrightarrow>
            to = recipientAddress p \<and> v = selectedCount s * 2 * wei_per_ether \<and>
            parseEther (toString (selectedCount s * 2)) = Inr v)
       \<and> (\<forall>wallet. walletAddress p = Some wallet \<and> wallet \<noteq> [] \<and>
            on_required_chain en \<and>
            totalReserved s + selectedCount s \<le> cap \<longrightarrow>
            SendTransaction (recipientAddress p) (selectedCount s * 2 * wei_per_ether)
              \<in> set (snd (handleReserve p en s)))
       \<and> \<not> list_ex is_reservation_update
             (takeWhile (\<lambda>ev. ev \<noteq> TxWait) (snd (handleReserve p en s)))
       \<and> (list_ex is_reservation_update (snd (handleReserve p en s)) \<longrightarrow> txWait en = Inr ())
       \<and> (sendTransaction en (recipientAddress p) (selectedCount s * 2 * wei_per_ether) \<noteq> Inr ()
            \<or> txWait en \<noteq> Inr () \<longrightarrow>
            whitelist (fst (handleReserve p en s)) = whitelist s \<and>
            totalReserved (fst (handleReserve p en s)) = totalReserved s)
       \<and> (truthy (walletAddress p) \<longrightarrow> hd (snd (handleReserve p en s)) = SetLoading True)
       \<and> (\<forall>to v. SendTransaction to v \<in> set (snd (handleReserve p en s)) \<longrightarrow>
            takeWhile (\<lambda>ev. ev \<noteq> SendTransaction to v) (snd (handleReserve p en s)) =
              [SetLoading True, NewBrowserProvider, GetSigner, GetNetwork])
       \<and> (TxWait \<in> set (snd (handleReserve p en s)) \<longrightarrow>
            takeWhile (\<lambda>ev. ev \<noteq> TxWait) (snd (handleReserve p en s)) =
              [SetLoading True, NewBrowserProvider, GetSigner, GetNetwork,
               SendTransaction (recipientAddress p) (selectedCount s * 2 * wei_per_ether)])"
proof -
  have sent: "\<forall>to v. SendTransaction to v \<in> set (snd (handleReserve p en s)) \<longrightarrow>
            to = recipientAddress p \<and> v = selectedCount s * 2 * wei_per_ether \<and>
            parseEther (toString (selectedCount s * 2)) = Inr v"
    using handleReserve_trace_cases [of p en s]
    by (auto simp add: parseEther_toString)
  have submitted: "\<forall>wallet. walletAddress p = Some wallet \<and> wallet \<noteq> [] \<and>
            on_required_chain en \<and>
            totalReserved s + selectedCount s \<le> cap \<longrightarrow>
            SendTransaction (recipientAddress p) (selectedCount s * 2 * wei_per_ether)
              \<in> set (snd (handleReserve p en s))"
    by (auto simp add: handleReserve_def reserve_try_def reserve_pay_def
      reserve_commit_eq reserve_catch_def parseEther_toString on_required_chain_def
      split: sum.splits option.splits)
  have before: "\<not> list_ex is_reservation_update
             (takeWhile (\<lambda>ev. ev \<noteq> TxWait) (snd (handleReserve p en s)))"
    using handleReserve_trace_cases [of p en s]
    by (elim disjE exE conjE; simp add: list_ex_iff; blast dest: set_takeWhileD)
  have resolved: "list_ex is_reservation_update (snd (handleReserve p en s)) \<longrightarrow> txWait en = Inr ()"
    using handleReserve_trace_cases [of p en s]
    by (auto simp add: list_ex_iff)
  have first: "truthy (walletAddress p) \<longrightarrow> hd (snd (handleReserve p en s)) = SetLoading True"
    by (auto simp add: truthy_def handleReserve_def split: option.splits prod.splits)
  have kept: "sendTransaction en (recipientAddress p) (selectedCount s * 2 * wei_per_ether) \<noteq> Inr ()
            \<or> txWait en \<noteq> Inr () \<longrightarrow>
            whitelist (fst (handleReserve p en s)) = whitelist s \<and>
            totalReserved (fst (handleReserve p en s)) = totalReserved s"
    using handleReserve_unconfirmed [of en p s] by blast
  from sent submitted before resolved kept first before_transfer [of p en s]
  show ?thesis by (intro conjI) blast+
qed

text \<open>Four spots: the string is \<open>8\<close>, the value 8 units of \<open>10\<^sup>1\<^sup>8\<close>.\<close>

theorem transfer_value_and_recipient_witness:
  "1 \<le> selectedCount (ex_state [] 4) \<and> selectedCount (ex_state [] 4) \<le> 10 \<and>
   toString (selectedCount (ex_state [] 4) * 2) = ''8'' \<and>
   parseEther ''8'' = Inr 8000000000000000000 \<and>
   SendTransaction ''0xRecipient'' 8000000000000000000
     \<in> set (snd (handleReserve (ex_props (Some ''0xA'')) ex_env_ok (ex_state [] 4)))"
proof -
  have q: "1 \<le> selectedCount (ex_state [] 4)" "selectedCount (ex_state [] 4) \<le> 10"
    by (simp_all add: ex_state_def)
  have str: "toString (selectedCount (ex_state [] 4) * 2) = ''8''"
    by (simp add: ex_state_def toString_def digits_of.simps digit_char_def digit_chars_def)
  have sent: "SendTransaction ''0xRecipient'' 8000000000000000000
     \<in> set (snd (handleReserve (ex_props (Some ''0xA'')) ex_env_ok (ex_state [] 4)))"
    by (simp add: handler_defs parseEther_toString ex_defs)
  from transfer_value_and_recipient [OF q, of "ex_props (Some ''0xA'')" ex_env_ok] sent
  have "parseEther (toString (selectedCount (ex_state [] 4) * 2)) = Inr 8000000000000000000"
    by blast
  then have pe: "parseEther ''8'' = Inr 8000000000000000000"
    unfolding str .
  from q str pe sent show ?thesis by blast
qed

subsection \<open>The displayed reservations\<close>

text \<open>
  Claim C7.  Collapsed, the displayed reservations are the whitelist without
  its first \<open>length - 10\<close> entries: at most 10, the last ones, in order.
  Expanded, they are the whole whitelist.  \<^verbatim>\<open>toggleExpanded\<close> twice gives
  back the state, and so the view.
\<close>

theorem displayed_reservations_view:
  "displayedReservations (s\<lparr>expanded := False\<rparr>) = drop (length (whitelist s) - 10) (whitelist s)
   \<and> length (displayedReservations (s\<lparr>expanded := False\<rparr>)) = min 10 (length (whitelist s))
   \<and> whitelist s = take (length (whitelist s) - 10) (whitelist s)
        @ displayedReservations (s\<lparr>expanded := False\<rparr>)
   \<and> displayedReservations (s\<lparr>expanded := True\<rparr>) = whitelist s
   \<and> toggleExpanded (toggleExpanded s) = s
   \<and> displayedReservations (toggleExpanded (toggleExpanded s)) = displayedReservations s"
  by (simp add: displayedReservations_def slice_last_ten toggleExpanded_def min_def)

subsection \<open>Errors shown to the user\<close>

text \<open>
  Claim C8.  When the \<^verbatim>\<open>try\<close> block throws, the run shows exactly one
  alert, the one for the thrown value: the insufficient-funds message for the
  code \<^verbatim>\<open>INSUFFICIENT_FUNDS\<close>, the call-rejection message for
  \<^verbatim>\<open>CALL_EXCEPTION\<close>, and otherwise the reason when it is truthy, else the
  message when it is truthy, else the fixed fallback.
\<close>

theorem errors_surfaced:
  assumes "walletAddress p = Some wallet" and "wallet \<noteq> []"
    and "thrown p en wallet s = Some e"
  shows "alerts (snd (handleReserve p en s)) = [error_alert e]
       \<and> (code e = Some ''INSUFFICIENT_FUNDS'' \<longrightarrow> error_alert e = insufficient_funds_msg)
       \<and> (code e = Some ''CALL_EXCEPTION'' \<longrightarrow> error_alert e = call_exception_msg)
       \<and> (code e \<noteq> Some ''INSUFFICIENT_FUNDS'' \<and> code e \<noteq> Some ''CALL_EXCEPTION'' \<longrightarrow>
            (truthy (reason e) \<longrightarrow> Some (error_alert e) = reason e) \<and>
            (\<not> truthy (reason e) \<and> truthy (message e) \<longrightarrow> Some (error_alert e) = message e) \<and>
            (\<not> truthy (reason e) \<and> \<not> truthy (message e) \<longrightarrow>
               error_alert e = unexpected_error_msg))"
proof -
  have classes: "(code e = Some ''INSUFFICIENT_FUNDS'' \<longrightarrow> error_alert e = insufficient_funds_msg)
       \<and> (code e = Some ''CALL_EXCEPTION'' \<longrightarrow> error_alert e = call_exception_msg)
       \<and> (code e \<noteq> Some ''INSUFFICIENT_FUNDS'' \<and> code e \<noteq> Some ''CALL_EXCEPTION'' \<longrightarrow>
            (truthy (reason e) \<longrightarrow> Some (error_alert e) = reason e) \<and>
            (\<not> truthy (reason e) \<and> truthy (message e) \<longrightarrow> Some (error_alert e) = message e) \<and>
            (\<not> truthy (reason e) \<and> \<not> truthy (message e) \<longrightarrow>
               error_alert e = unexpected_error_msg))"
    by (auto simp add: error_alert_def truthy_def or_else_def split: option.splits)
  with handleReserve_thrown_alerts [OF assms] show ?thesis by blast
qed

text \<open>
  A transfer rejected for insufficient funds, and a failed write to the store
  whose error has an empty reason and a message.
\<close>

theorem errors_surfaced_witness:
  "walletAddress (ex_props (Some ''0xA'')) = Some ''0xA'' \<and> ''0xA'' \<noteq> [] \<and>
   thrown (ex_props (Some ''0xA''))
     (ex_env_send_fails (ex_error (Some ''INSUFFICIENT_FUNDS'') None (Some ''insufficient funds'')))
     ''0xA'' (ex_state [] 1)
     = Some (ex_error (Some ''INSUFFICIENT_FUNDS'') None (Some ''insufficient funds'')) \<and>
   alerts (snd (handleReserve (ex_props (Some ''0xA''))
     (ex_env_send_fails (ex_error (Some ''INSUFFICIENT_FUNDS'') None (Some ''insufficient funds'')))
     (ex_state [] 1))) = [insufficient_funds_msg] \<and>
   thrown (ex_props (Some ''0xA''))
     (ex_env_store_fails (ex_error (Some ''UNKNOWN_ERROR'') (Some []) (Some ''store unavailable'')))
     ''0xA'' (ex_state [] 1)
     = Some (ex_error (Some ''UNKNOWN_ERROR'') (Some []) (Some ''store unavailable'')) \<and>
   alerts (snd (handleReserve (ex_props (Some ''0xA''))
     (ex_env_store_fails (ex_error (Some ''UNKNOWN_ERROR'') (Some []) (Some ''store unavailable'')))
     (ex_state [] 1))) = [''store unavailable'']"
proof -
  have w: "walletAddress (ex_props (Some ''0xA'')) = Some ''0xA''" "''0xA'' \<noteq> []"
    by (simp_all add: ex_props_def)
  have t1: "thrown (ex_props (Some ''0xA''))
     (ex_env_send_fails (ex_error (Some ''INSUFFICIENT_FUNDS'') None (Some ''insufficient funds'')))
     ''0xA'' (ex_state [] 1)
     = Some (ex_error (Some ''INSUFFICIENT_FUNDS'') None (Some ''insufficient funds''))"
    by (simp add: thrown_def handler_defs parseEther_toString ex_defs ex_env_defs)
  have t2: "thrown (ex_props (Some ''0xA''))
     (ex_env_store_fails (ex_error (Some ''UNKNOWN_ERROR'') (Some []) (Some ''store unavailable'')))
     ''0xA'' (ex_state [] 1)
     = Some (ex_error (Some ''UNKNOWN_ERROR'') (Some []) (Some ''store unavailable''))"
    by (simp add: thrown_def handler_defs parseEther_toString ex_defs ex_env_defs)
  show ?thesis
    using w t1 t2 errors_surfaced [OF w t1] errors_surfaced [OF w t2]
    by (simp add: ex_error_def truthy_def)
qed

subsection \<open>The optimistic update and the loading flag\<close>

text \<open>
  Claim C9, as stated, fails on the first way out of \<^verbatim>\<open>handleReserve\<close>:
  without a wallet it alerts and returns before \<^verbatim>\<open>setLoading(true)\<close> and
  outside the \<^verbatim>\<open>try\<close>, so \<^verbatim>\<open>finally\<close> does not run and
  \<^verbatim>\<open>loading\<close> is left as it was, here \<open>True\<close>.
\<close>

theorem loading_reset_counterexample:
  "loading (fst (handleReserve (ex_props None) ex_env_ok (ex_state [] 1\<lparr>loading := True\<rparr>))) = True \<and>
   snd (handleReserve (ex_props None) ex_env_ok (ex_state [] 1\<lparr>loading := True\<rparr>)) =
     [Alert connect_wallet_msg]"
  by (simp add: handleReserve_def ex_props_def)

text \<open>
  Claim C9, amended.  After a confirmed payment both local updates come before
  the call of \<^verbatim>\<open>updateWhitelist\<close> in the trace; when that call throws,
  the state is the one of the run in which it succeeds (nothing is rolled
  back) and the error is alerted.  With a connected wallet every run ends
  with \<^verbatim>\<open>setLoading(false)\<close>; without one the state, \<^verbatim>\<open>loading\<close>
  included, is unchanged.
\<close>

theorem optimistic_update_kept:
  "(payment_confirmed p en s wallet \<longrightarrow>
      (\<exists>rest. snd (handleReserve p en s) =
         [SetLoading True, NewBrowserProvider, GetSigner, GetNetwork,
          SendTransaction (recipientAddress p) (selectedCount s * 2 * wei_per_ether), TxWait,
          SetWhitelist (whitelist (fst (handleReserve p en s))),
          SetTotalReserved (totalReserved (fst (handleReserve p en s))),
          UpdateWhitelist wallet (selectedCount s)] @ rest) \<and>
      whitelist (fst (handleReserve p en s)) =
        updatedWhitelist wallet (selectedCount s) (whitelist s) \<and>
      totalReserved (fst (handleReserve p en s)) = totalReserved s + selectedCount s \<and>
      (\<forall>e. updateWhitelist en wallet (selectedCount s) = Inl e \<longrightarrow>
         fst (handleReserve p en s) =
           fst (handleReserve p (en\<lparr>updateWhitelist := (\<lambda>a c. Inr ())\<rparr>) s) \<and>
         alerts (snd (handleReserve p en s)) = [error_alert e]))
   \<and> (truthy (walletAddress p) \<longrightarrow>
        loading (fst (handleReserve p en s)) = False \<and>
        last (snd (handleReserve p en s)) = SetLoading False)
   \<and> (\<not> truthy (walletAddress p) \<longrightarrow>
        fst (handleReserve p en s) = s \<and>
        snd (handleReserve p en s) = [Alert connect_wallet_msg])"
proof -
  have confirmed_other:
    "payment_confirmed p (en\<lparr>updateWhitelist := (\<lambda>a c. Inr ())\<rparr>) s wallet"
    if "payment_confirmed p en s wallet"
    using that by (simp add: payment_confirmed_def on_required_chain_def)
  have a: "(\<exists>rest. snd (handleReserve p en s) =
         [SetLoading True, NewBrowserProvider, GetSigner, GetNetwork,
          SendTransaction (recipientAddress p) (selectedCount s * 2 * wei_per_ether), TxWait,
          SetWhitelist (whitelist (fst (handleReserve p en s))),
          SetTotalReserved (totalReserved (fst (handleReserve p en s))),
          UpdateWhitelist wallet (selectedCount s)] @ rest) \<and>
      whitelist (fst (handleReserve p en s)) =
        updatedWhitelist wallet (selectedCount s) (whitelist s) \<and>
      totalReserved (fst (handleReserve p en s)) = totalReserved s + selectedCount s \<and>
      (\<forall>e. updateWhitelist en wallet (selectedCount s) = Inl e \<longrightarrow>
         fst (handleReserve p en s) =
           fst (handleReserve p (en\<lparr>updateWhitelist := (\<lambda>a c. Inr ())\<rparr>) s) \<and>
         alerts (snd (handleReserve p en s)) = [error_alert e])"
    if c: "payment_confirmed p en s wallet"
    by (simp add: handleReserve_confirmed [OF c]
        handleReserve_confirmed [OF confirmed_other [OF c]])
  have b: "truthy (walletAddress p) \<longrightarrow>
        loading (fst (handleReserve p en s)) = False \<and>
        last (snd (handleReserve p en s)) = SetLoading False"
    by (auto simp add: truthy_def handleReserve_def split: option.splits prod.splits)
  have c: "\<not> truthy (walletAddress p) \<longrightarrow>
        fst (handleReserve p en s) = s \<and>
        snd (handleReserve p en s) = [Alert connect_wallet_msg]"
    by (auto simp add: truthy_def handleReserve_def split: option.splits)
  from a b c show ?thesis by blast
qed

text \<open>
  Address A holds 2 and pays for 3, the store rejects the write: the tally is
  5, \<^verbatim>\<open>loading\<close> is off, the message of the error is shown.
\<close>

theorem optimistic_update_kept_witness:
  "payment_confirmed (ex_props (Some ''0xA''))
     (ex_env_store_fails (ex_error None None (Some ''store unavailable'')))
     (ex_state [\<lparr>address = ''0xA'', count = 2\<rparr>] 3) ''0xA'' \<and>
   updateWhitelist (ex_env_store_fails (ex_error None None (Some ''store unavailable'')))
     ''0xA'' (selectedCount (ex_state [\<lparr>address = ''0xA'', count = 2\<rparr>] 3))
     = Inl (ex_error None None (Some ''store unavailable'')) \<and>
   truthy (walletAddress (ex_props (Some ''0xA''))) \<and>
   \<not> truthy (walletAddress (ex_props None)) \<and>
   totalReserved (fst (handleReserve (ex_props (Some ''0xA''))
     (ex_env_store_fails (ex_error None None (Some ''store unavailable'')))
     (ex_state [\<lparr>address = ''0xA'', count = 2\<rparr>] 3))) = 5 \<and>
   loading (fst (handleReserve (ex_props (Some ''0xA''))
     (ex_env_store_fails (ex_error None None (Some ''store unavailable'')))
     (ex_state [\<lparr>address = ''0xA'', count = 2\<rparr>] 3))) = False \<and>
   alerts (snd (handleReserve (ex_props (Some ''0xA''))
     (ex_env_store_fails (ex_error None None (Some ''store unavailable'')))
     (ex_state [\<lparr>address = ''0xA'', count = 2\<rparr>] 3))) = [''store unavailable''] \<and>
   fst (handleReserve (ex_props None) ex_env_ok (ex_state [] 1)) = ex_state [] 1"
proof -
  have a: "payment_confirmed (ex_props (Some ''0xA''))
     (ex_env_store_fails (ex_error None None (Some ''store unavailable'')))
     (ex_state [\<lparr>address = ''0xA'', count = 2\<rparr>] 3) ''0xA''"
    by (simp add: payment_confirmed_def on_required_chain_def ex_defs ex_env_defs)
  have u: "updateWhitelist (ex_env_store_fails (ex_error None None (Some ''store unavailable'')))
     ''0xA'' (selectedCount (ex_state [\<lparr>address = ''0xA'', count = 2\<rparr>] 3))
     = Inl (ex_error None None (Some ''store unavailable''))"
    by (simp add: ex_defs ex_env_defs)
  have t: "truthy (walletAddress (ex_props (Some ''0xA'')))"
    and f: "\<not> truthy (walletAddress (ex_props None))"
    by (simp_all add: truthy_def ex_props_def)
  note kept = optimistic_update_kept [of "ex_props (Some ''0xA'')"
        "ex_env_store_fails (ex_error None None (Some ''store unavailable''))"
        "ex_state [\<lparr>address = ''0xA'', count = 2\<rparr>] 3" "''0xA''"]
  have "totalReserved (fst (handleReserve (ex_props (Some ''0xA''))
     (ex_env_store_fails (ex_error None None (Some ''store unavailable'')))
     (ex_state [\<lparr>address = ''0xA'', count = 2\<rparr>] 3))) =
       totalReserved (ex_state [\<lparr>address = ''0xA'', count = 2\<rparr>] 3)
       + selectedCount (ex_state [\<lparr>address = ''0xA'', count = 2\<rparr>] 3)"
    using kept a by blast
  then have total: "totalReserved (fst (handleReserve (ex_props (Some ''0xA''))
     (ex_env_store_fails (ex_error None None (Some ''store unavailable'')))
     (ex_state [\<lparr>address = ''0xA'', count = 2\<rparr>] 3))) = 5"
    by (simp add: ex_state_def count_total_def)
  have "alerts (snd (handleReserve (ex_props (Some ''0xA''))
     (ex_env_store_fails (ex_error None None (Some ''store unavailable'')))
     (ex_state [\<lparr>address = ''0xA'', count = 2\<rparr>] 3))) =
       [error_alert (ex_error None None (Some ''store unavailable''))]"
    using kept a u by blast
  then have shown: "alerts (snd (handleReserve (ex_props (Some ''0xA''))
     (ex_env_store_fails (ex_error None None (Some ''store unavailable'')))
     (ex_state [\<lparr>address = ''0xA'', count = 2\<rparr>] 3))) = [''store unavailable'']"
    by (simp add: error_alert_def ex_error_def truthy_def or_else_def)
  have idle: "loading (fst (handleReserve (ex_props (Some ''0xA''))
     (ex_env_store_fails (ex_error None None (Some ''store unavailable'')))
     (ex_state [\<lparr>address = ''0xA'', count = 2\<rparr>] 3))) = False"
    using kept t by blast
  have same: "fst (handleReserve (ex_props None) ex_env_ok (ex_state [] 1)) = ex_state [] 1"
    using optimistic_update_kept [of "ex_props None" ex_env_ok "ex_state [] 1" "[]"] f
    by blast
  from a u t f total idle shown same show ?thesis by blast
qed

subsection \<open>Short lists\<close>

text \<open>
  Claim C10.  For a whitelist of at most 10 entries the slice of the last 10
  is the whole list, so the items rendered are the same collapsed and
  expanded; the toggle is rendered exactly when the whitelist has more than
  10 entries.
\<close>

theorem short_list_shown_whole:
  "(length (whitelist s) \<le> 10 \<longrightarrow>
      slice_from (- 10) (whitelist s) = whitelist s
    \<and> displayedReservations (s\<lparr>expanded := False\<rparr>) = displayedReservations (s\<lparr>expanded := True\<rparr>)
    \<and> reservation_items (s\<lparr>expanded := False\<rparr>) = reservation_items (s\<lparr>expanded := True\<rparr>)
    \<and> toggle_button (s\<lparr>expanded := False\<rparr>) = toggle_button (s\<lparr>expanded := True\<rparr>))
   \<and> ((toggle_button s \<noteq> None) = (length (whitelist s) > 10))"
  by (simp add: displayedReservations_def slice_last_ten reservation_items_def toggle_button_def)

text \<open>One entry: one line either way, and no toggle.\<close>

theorem short_list_shown_whole_witness:
  "length (whitelist (ex_state [\<lparr>address = ''0xA'', count = 2\<rparr>] 1)) \<le> 10 \<and>
   reservation_items (ex_state [\<lparr>address = ''0xA'', count = 2\<rparr>] 1\<lparr>expanded := False\<rparr>) =
     reservation_items (ex_state [\<lparr>address = ''0xA'', count = 2\<rparr>] 1\<lparr>expanded := True\<rparr>) \<and>
   reservation_items (ex_state [\<lparr>address = ''0xA'', count = 2\<rparr>] 1\<lparr>expanded := True\<rparr>) =
     [''0xA reserved 2 spots''] \<and>
   toggle_button (ex_state [\<lparr>address = ''0xA'', count = 2\<rparr>] 1) = None"
  using short_list_shown_whole [of "ex_state [\<lparr>address = ''0xA'', count = 2\<rparr>] 1"]
  by (simp add: ex_state_def reservation_items_def displayedReservations_def
      reservation_line_def toString_def digits_of.simps digit_char_def digit_chars_def
      slice_from_def toggle_button_def)

end
